theory Spec2Isabelle
  imports Complex_Main
begin

section \<open>The NLP service of the AI Context Gap Tracker (src/python-nlp/main.py)\<close>

text \<open>
  The service is a FastAPI application. Each route handler is embedded as a HOL function
  of the same name. The module-level globals the handlers read (\<open>nlp\<close>, \<open>sia\<close>,
  \<open>stop_words\<close>, \<open>redis_client\<close>) and the library functions they call
  (\<open>sent_tokenize\<close>, \<open>word_tokenize\<close>, \<open>json.dumps\<close>, the iteration order of a
  Python \<open>set\<close>, the Unicode tables behind \<open>str.lower\<close> and the regular expression's
  \<open>\w\<close>) are not code of the repository: they are the fields of the record \<open>env\<close>, and
  every theorem holds for every value of them unless it says otherwise.

  Python's \<open>float\<close> is modelled by \<open>real\<close>. A Python \<open>str\<close> is the list of its code
  points, so that \<open>len\<close> is \<open>length\<close> and no text is excluded; a literal of the source is
  written \<open>lit ''...''\<close>. The details of exceptions and the messages of the log, which
  only ever hold literals of the source, are HOL strings.
\<close>

subsection \<open>Strings\<close>

type_synonym codepoint = nat

type_synonym str = "codepoint list"

definition lit :: "string \<Rightarrow> str" where
  \<comment> \<open>a string literal of the source (ASCII): the code points of its characters\<close>
  "lit cs = map of_char cs"

definition is_space :: "codepoint \<Rightarrow> bool" where
  \<comment> \<open>\<open>str.isspace\<close>, the white space of \<open>strip()\<close> and \<open>split()\<close>: U+0009 to U+000D,
      U+001C to U+0020, U+0085, U+00A0, U+1680, U+2000 to U+200A, U+2028, U+2029, U+202F,
      U+205F and U+3000\<close>
  "is_space c \<longleftrightarrow>
     (9 \<le> c \<and> c \<le> 13) \<or> (28 \<le> c \<and> c \<le> 32) \<or> c = 133 \<or> c = 160 \<or> c = 5760 \<or>
     (8192 \<le> c \<and> c \<le> 8202) \<or> c = 8232 \<or> c = 8233 \<or> c = 8239 \<or> c = 8287 \<or> c = 12288"

definition strip :: "str \<Rightarrow> str" where
  \<comment> \<open>\<open>str.strip()\<close>: white space removed at both ends\<close>
  "strip s = rev (dropWhile is_space (rev (dropWhile is_space s)))"

fun split_from :: "str \<Rightarrow> str \<Rightarrow> str list" where
  "split_from cur [] = (if cur = [] then [] else [cur])"
| "split_from cur (c # cs) =
     (if is_space c then (if cur = [] then split_from [] cs else cur # split_from [] cs)
      else split_from (cur @ [c]) cs)"

definition split :: "str \<Rightarrow> str list" where
  \<comment> \<open>\<open>str.split()\<close> with no argument: the maximal runs of characters that are not white space\<close>
  "split s = split_from [] s"

fun starts_with :: "str \<Rightarrow> str \<Rightarrow> bool" where
  "starts_with [] s = True"
| "starts_with (k # ks) [] = False"
| "starts_with (k # ks) (c # cs) = (k = c \<and> starts_with ks cs)"

fun str_contains :: "str \<Rightarrow> str \<Rightarrow> bool" where
  \<comment> \<open>\<open>k in s\<close> on strings: \<open>k\<close> occurs in \<open>s\<close> as a contiguous substring\<close>
  "str_contains k [] = starts_with k []"
| "str_contains k (c # cs) = (starts_with k (c # cs) \<or> str_contains k cs)"

definition digit_char :: "nat \<Rightarrow> codepoint" where
  "digit_char n = 48 + n"

fun str_nat :: "nat \<Rightarrow> str" where
  "str_nat n = (if n < 10 then [digit_char n] else str_nat (n div 10) @ [digit_char (n mod 10)])"

definition str_int :: "int \<Rightarrow> str" where
  \<comment> \<open>\<open>str(i)\<close> of a Python \<open>int\<close>, as an f-string formats it\<close>
  "str_int i = (if i < 0 then lit ''-'' @ str_nat (nat (- i)) else str_nat (nat i))"

subsection \<open>Data model (the pydantic models)\<close>

text \<open>
  Field names carry a prefix: \<open>text\<close> is a keyword of Isabelle, and several models share
  the names \<open>text\<close>, \<open>label\<close> and \<open>confidence\<close>.
\<close>

record text_input =
  input_text :: str
  session_id :: "str option"
  turn_number :: "int option"

record entity_result =
  e_text :: str
  e_label :: str
  e_start :: nat
  e_end :: nat
  e_confidence :: real

record topic_result =
  t_topic :: str
  t_confidence :: real
  t_keywords :: "str list"

record sentiment_result =
  s_compound :: real
  s_positive :: real
  s_negative :: real
  s_neutral :: real
  s_label :: str

record ambiguity_result =
  a_text :: str
  a_type :: str
  a_confidence :: real
  a_suggestions :: "str list"

record timeline_event =
  ev_event :: str
  ev_timestamp :: "str option"
  ev_reference :: str
  ev_confidence :: real

record nlp_analysis_result =
  r_entities :: "entity_result list"
  r_topics :: "topic_result list"
  r_sentiment :: sentiment_result
  r_ambiguities :: "ambiguity_result list"
  r_timeline_events :: "timeline_event list"
  r_key_phrases :: "str list"
  r_language :: str
  r_readability_score :: real
  r_processing_time :: real

subsection \<open>Exceptions, the log, and the external capabilities\<close>

datatype exn =
    HTTPException nat string  \<comment> \<open>status code and detail\<close>
  | Error string              \<comment> \<open>any other \<open>Exception\<close>, raised by a library\<close>

datatype log_entry = LogError string exn
  \<comment> \<open>\<open>logger.error(f"<message>: {e}")\<close>\<close>

type_synonym 'a outcome = "(exn + 'a) \<times> log_entry list"
  \<comment> \<open>what a handler returns or raises, and the lines it logs\<close>

record span =
  span_text :: str
  span_label :: str
  start_char :: nat
  end_char :: nat

record doc =
  ents :: "span list"
  noun_chunks :: "str list"  \<comment> \<open>\<open>chunk.text\<close> of each noun chunk\<close>

record scores =
  sc_compound :: real
  sc_pos :: real
  sc_neg :: real
  sc_neu :: real

type_synonym cache = "str \<rightharpoonup> nat \<times> str"
  \<comment> \<open>the key/value store: a key holds its expiry in seconds and its value\<close>

datatype stage =
  Entities | Topics | Sentiment | Ambiguities | Timeline | KeyPhrases | Readability | Language

record env =
  nlp :: "(str \<Rightarrow> exn + doc) option"
    \<comment> \<open>the spaCy pipeline, \<open>None\<close> when loading it failed at startup\<close>
  sia :: "(str \<Rightarrow> exn + scores) option"
    \<comment> \<open>\<open>sia.polarity_scores\<close>, \<open>None\<close> when NLTK failed to initialise\<close>
  stop_words :: "str set"
  redis_client :: "(str \<Rightarrow> nat \<Rightarrow> str \<Rightarrow> cache \<Rightarrow> (exn + unit) \<times> cache) option"
    \<comment> \<open>\<open>redis_client.setex\<close>, \<open>None\<close> when the connection failed at startup: whether the
        call returns or raises, and the store it leaves (a call that raises may or may not
        have written)\<close>
  sent_tokenize :: "str \<Rightarrow> exn + str list"
  word_tokenize :: "str \<Rightarrow> exn + str list"
  list_of_set :: "str list \<Rightarrow> str list"
    \<comment> \<open>\<open>list(set(xs))\<close>: the elements of \<open>xs\<close> in the set's iteration order\<close>
  json_dumps :: "nlp_analysis_result \<Rightarrow> str"
    \<comment> \<open>\<open>json.dumps(result.dict())\<close>\<close>
  unicode_lower :: "str \<Rightarrow> str"
    \<comment> \<open>\<open>str.lower()\<close> on a string that has a character beyond ASCII\<close>
  unicode_alnum :: "codepoint \<Rightarrow> bool"
    \<comment> \<open>whether a character beyond ASCII is alphanumeric in the Unicode database\<close>
  duration :: "stage \<Rightarrow> real"
    \<comment> \<open>the wall-clock time a stage of \<open>/analyze\<close> takes on this request\<close>

subsection \<open>Case and word characters\<close>

definition ascii_lower :: "codepoint \<Rightarrow> codepoint" where
  "ascii_lower c = (if 65 \<le> c \<and> c \<le> 90 then c + 32 else c)"

definition lower :: "env \<Rightarrow> str \<Rightarrow> str" where
  \<comment> \<open>\<open>str.lower()\<close>: on an ASCII string the letters A to Z are lowered one by one; any
      other string goes through the Unicode case mapping\<close>
  "lower env s = (if list_all (\<lambda>c. c < 128) s then map ascii_lower s else unicode_lower env s)"

definition is_word_char :: "env \<Rightarrow> codepoint \<Rightarrow> bool" where
  \<comment> \<open>the class \<open>\w\<close> of module \<open>re\<close> on a \<open>str\<close> pattern: alphanumeric or the underscore\<close>
  "is_word_char env c =
     (if c < 128 then (48 \<le> c \<and> c \<le> 57) \<or> (65 \<le> c \<and> c \<le> 90) \<or> c = 95 \<or> (97 \<le> c \<and> c \<le> 122)
      else unicode_alnum env c)"

definition head_is_word :: "env \<Rightarrow> str \<Rightarrow> bool" where
  \<comment> \<open>the string starts with a word character (the end of the text counts as non-word)\<close>
  "head_is_word env s = (case s of [] \<Rightarrow> False | c # cs \<Rightarrow> is_word_char env c)"

definition match_here :: "env \<Rightarrow> str \<Rightarrow> bool \<Rightarrow> str \<Rightarrow> bool" where
  \<comment> \<open>\<open>\bterm\b\<close> matches at the start of \<open>s\<close>, where \<open>left\<close> tells whether the character
      before \<open>s\<close> is a word character: \<open>\b\<close> holds where exactly one of the characters before
      and after the position is a word character\<close>
  "match_here env term left s \<longleftrightarrow>
     starts_with term s \<and>
     left = (\<not> head_is_word env s) \<and>
     (if term = [] then left else is_word_char env (last term)) =
       (\<not> head_is_word env (drop (length term) s))"

fun search_word :: "env \<Rightarrow> str \<Rightarrow> bool \<Rightarrow> str \<Rightarrow> bool" where
  "search_word env term left [] = match_here env term left []"
| "search_word env term left (c # cs) =
     (match_here env term left (c # cs) \<or> search_word env term (is_word_char env c) cs)"

definition re_search_word :: "env \<Rightarrow> str \<Rightarrow> str \<Rightarrow> bool" where
  \<comment> \<open>\<open>re.search(r'\b' + term + r'\b', s)\<close> finds a match, for a term of letters and spaces
      (every character of such a pattern matches itself)\<close>
  "re_search_word env term s = search_word env term False s"

subsection \<open>The single-facet handlers\<close>

definition entity_of_span :: "span \<Rightarrow> entity_result" where
  "entity_of_span ent =
     \<lparr>e_text = span_text ent, e_label = span_label ent, e_start = start_char ent,
      e_end = end_char ent, e_confidence = 0.8\<rparr>"

definition extract_entities :: "env \<Rightarrow> text_input \<Rightarrow> entity_result list outcome" where
  "extract_entities env input_data =
     (case nlp env of
        None \<Rightarrow> (Inl (HTTPException 503 ''SpaCy model not available''), [])
      | Some run \<Rightarrow>
          (case run (input_text input_data) of
             Inl e \<Rightarrow> (Inl (HTTPException 500 ''Entity extraction failed''),
                        [LogError ''Entity extraction failed'' e])
           | Inr d \<Rightarrow> (Inr (map entity_of_span (ents d)), [])))"

definition topic_of :: "str \<Rightarrow> topic_result" where
  "topic_of topic = \<lparr>t_topic = topic, t_confidence = 0.7, t_keywords = split topic\<rparr>"

definition extract_topics :: "env \<Rightarrow> text_input \<Rightarrow> topic_result list outcome" where
  "extract_topics env input_data =
     (case nlp env of
        None \<Rightarrow> (Inl (HTTPException 503 ''SpaCy model not available''), [])
      | Some run \<Rightarrow>
          (case run (input_text input_data) of
             Inl e \<Rightarrow> (Inl (HTTPException 500 ''Topic extraction failed''),
                        [LogError ''Topic extraction failed'' e])
           | Inr d \<Rightarrow>
               (let noun_phrases =
                      map (lower env) (filter (\<lambda>chunk. 2 < length (strip chunk)) (noun_chunks d));
                    entity_topics =
                      map (\<lambda>ent. lower env (span_text ent))
                        (filter (\<lambda>ent. span_label ent \<in> set (map lit [''PERSON'', ''ORG'', ''GPE'', ''PRODUCT'']))
                           (ents d));
                    all_topics = list_of_set env (noun_phrases @ entity_topics)
                in (Inr (map topic_of (take 10 all_topics)), []))))"

definition sentiment_label :: "real \<Rightarrow> str" where
  "sentiment_label c =
     (if c \<ge> 0.05 then lit ''positive''
      else if c \<le> - 0.05 then lit ''negative''
      else lit ''neutral'')"

definition analyze_sentiment :: "env \<Rightarrow> text_input \<Rightarrow> sentiment_result outcome" where
  "analyze_sentiment env input_data =
     (case sia env of
        None \<Rightarrow> (Inl (HTTPException 503 ''NLTK sentiment analyzer not available''), [])
      | Some polarity_scores \<Rightarrow>
          (case polarity_scores (input_text input_data) of
             Inl e \<Rightarrow> (Inl (HTTPException 500 ''Sentiment analysis failed''),
                        [LogError ''Sentiment analysis failed'' e])
           | Inr sc \<Rightarrow>
               (Inr \<lparr>s_compound = sc_compound sc, s_positive = sc_pos sc, s_negative = sc_neg sc,
                     s_neutral = sc_neu sc, s_label = sentiment_label (sc_compound sc)\<rparr>, [])))"

definition ambiguous_pronouns :: "str list" where
  "ambiguous_pronouns =
     map lit [''it'', ''this'', ''that'', ''they'', ''them'', ''he'', ''she'', ''him'', ''her'']"

definition vague_quantifiers :: "str list" where
  "vague_quantifiers = map lit [''some'', ''many'', ''few'', ''several'', ''most'', ''a lot of'']"

definition temporal_vague :: "str list" where
  "temporal_vague = map lit [''soon'', ''later'', ''recently'', ''a while ago'', ''sometime'']"

definition pronoun_result :: "str \<Rightarrow> ambiguity_result" where
  "pronoun_result pronoun =
     \<lparr>a_text = pronoun, a_type = lit ''ambiguous_pronoun'', a_confidence = 0.7,
      a_suggestions = [lit ''Specify what '' @ lit [CHR 0x27] @ pronoun @ lit [CHR 0x27] @ lit '' refers to'']\<rparr>"

definition quantifier_result :: "str \<Rightarrow> ambiguity_result" where
  "quantifier_result quantifier =
     \<lparr>a_text = quantifier, a_type = lit ''vague_quantifier'', a_confidence = 0.6,
      a_suggestions =
        [lit ''Specify a more precise quantity than '' @ lit [CHR 0x27] @ quantifier @
           lit [CHR 0x27]]\<rparr>"

definition temporal_result :: "str \<Rightarrow> ambiguity_result" where
  "temporal_result temporal =
     \<lparr>a_text = temporal, a_type = lit ''temporal_ambiguity'', a_confidence = 0.8,
      a_suggestions =
        [lit ''Specify a more precise time than '' @ lit [CHR 0x27] @ temporal @ lit [CHR 0x27]]\<rparr>"

fun scan_terms ::
  "env \<Rightarrow> (str \<Rightarrow> ambiguity_result) \<Rightarrow> str \<Rightarrow> str list \<Rightarrow> ambiguity_result list
     \<Rightarrow> ambiguity_result list" where
  \<comment> \<open>one \<open>for\<close> loop of the detector: \<open>ambiguities.append\<close> for each term the text matches\<close>
  "scan_terms env mk txt [] ambiguities = ambiguities"
| "scan_terms env mk txt (term # terms) ambiguities =
     scan_terms env mk txt terms
       (if re_search_word env term txt then ambiguities @ [mk term] else ambiguities)"

definition detect_ambiguities :: "env \<Rightarrow> text_input \<Rightarrow> ambiguity_result list outcome" where
  "detect_ambiguities env input_data =
     (let txt = lower env (input_text input_data);
          ambiguities = scan_terms env pronoun_result txt ambiguous_pronouns [];
          ambiguities = scan_terms env quantifier_result txt vague_quantifiers ambiguities;
          ambiguities = scan_terms env temporal_result txt temporal_vague ambiguities
      in (Inr ambiguities, []))"

definition temporal_keywords :: "str list" where
  "temporal_keywords =
     map lit [''yesterday'', ''today'', ''tomorrow'', ''next week'', ''last month'', ''ago'',
              ''later'', ''before'', ''after'']"

definition entity_event :: "span \<Rightarrow> timeline_event" where
  "entity_event ent =
     \<lparr>ev_event = span_text ent, ev_timestamp = None, ev_reference = span_label ent,
      ev_confidence = 0.7\<rparr>"

definition keyword_event :: "str \<Rightarrow> str \<Rightarrow> timeline_event" where
  "keyword_event sentence keyword =
     \<lparr>ev_event = strip sentence, ev_timestamp = None,
      ev_reference = lit ''temporal_keyword_'' @ keyword, ev_confidence = 0.6\<rparr>"

fun scan_keywords ::
  "env \<Rightarrow> str \<Rightarrow> str list \<Rightarrow> timeline_event list \<Rightarrow> timeline_event list" where
  \<comment> \<open>the inner loop over the keywords of one sentence, left by \<open>break\<close> at the first hit\<close>
  "scan_keywords env sentence [] events = events"
| "scan_keywords env sentence (keyword # keywords) events =
     (if str_contains keyword (lower env sentence) then events @ [keyword_event sentence keyword]
      else scan_keywords env sentence keywords events)"

fun scan_sentences :: "env \<Rightarrow> str list \<Rightarrow> timeline_event list \<Rightarrow> timeline_event list" where
  "scan_sentences env [] events = events"
| "scan_sentences env (sentence # sentences) events =
     scan_sentences env sentences (scan_keywords env sentence temporal_keywords events)"

definition time_entity :: "span \<Rightarrow> bool" where
  "time_entity ent \<longleftrightarrow> span_label ent \<in> set (map lit [''DATE'', ''TIME'', ''EVENT''])"

definition extract_timeline_events :: "env \<Rightarrow> text_input \<Rightarrow> timeline_event list outcome" where
  "extract_timeline_events env input_data =
     (case nlp env of
        None \<Rightarrow> (Inl (HTTPException 503 ''SpaCy model not available''), [])
      | Some run \<Rightarrow>
          (case run (input_text input_data) of
             Inl e \<Rightarrow> (Inl (HTTPException 500 ''Timeline extraction failed''),
                        [LogError ''Timeline extraction failed'' e])
           | Inr d \<Rightarrow>
               (let time_entities = filter time_entity (ents d);
                    events = map entity_event time_entities
                in case sent_tokenize env (input_text input_data) of
                     Inl e \<Rightarrow> (Inl (HTTPException 500 ''Timeline extraction failed''),
                                [LogError ''Timeline extraction failed'' e])
                   | Inr sentences \<Rightarrow> (Inr (scan_sentences env sentences events), []))))"

fun add_chunks :: "env \<Rightarrow> str list \<Rightarrow> str list \<Rightarrow> str list" where
  "add_chunks env [] phrases = phrases"
| "add_chunks env (chunk # chunks) phrases =
     add_chunks env chunks
       (if 2 < length (strip chunk) \<and> lower env chunk \<notin> stop_words env
        then phrases @ [strip chunk]
        else phrases)"

fun add_entities :: "span list \<Rightarrow> str list \<Rightarrow> str list" where
  "add_entities [] phrases = phrases"
| "add_entities (ent # rest) phrases =
     add_entities rest
       (if span_text ent \<notin> set phrases then phrases @ [span_text ent] else phrases)"

definition extract_key_phrases :: "env \<Rightarrow> text_input \<Rightarrow> str list outcome" where
  "extract_key_phrases env input_data =
     (case nlp env of
        None \<Rightarrow> (Inl (HTTPException 503 ''SpaCy model not available''), [])
      | Some run \<Rightarrow>
          (case run (input_text input_data) of
             Inl e \<Rightarrow> (Inl (HTTPException 500 ''Key phrase extraction failed''),
                        [LogError ''Key phrase extraction failed'' e])
           | Inr d \<Rightarrow>
               (let phrases = add_chunks env (noun_chunks d) [];
                    phrases = add_entities (ents d) phrases
                in (Inr (take 20 phrases), []))))"

subsection \<open>Helper functions\<close>

definition calculate_readability_score :: "env \<Rightarrow> str \<Rightarrow> exn + real" where
  \<comment> \<open>the helper has no handler of its own: what a tokenizer raises leaves it\<close>
  "calculate_readability_score env txt =
     (if strip txt = [] then Inr 0
      else case sent_tokenize env txt of
        Inl e \<Rightarrow> Inl e
      | Inr sentences \<Rightarrow>
          (case word_tokenize env txt of
             Inl e \<Rightarrow> Inl e
           | Inr words \<Rightarrow>
               if length sentences = 0 \<or> length words = 0 then Inr 0
               else
                 (let avg_sentence_length = real (length words) / real (length sentences);
                      avg_word_length = real (sum_list (map length words)) / real (length words);
                      readability = avg_sentence_length * 0.5 + avg_word_length * 0.3
                  in Inr (min 1 (max 0 (1 - readability / 20))))))"

definition detect_language :: "str \<Rightarrow> str" where
  "detect_language txt = lit ''en''"

subsection \<open>The aggregate handler\<close>

text \<open>
  \<open>/analyze\<close> reads the clock, writes to the log and to the cache. The state it works on
  is the record \<open>world\<close>; \<open>trace\<close> lists, in the order they happen, the clock readings,
  the stages that ran and the calls of \<open>setex\<close>. A stage advances the clock by its
  \<open>duration\<close>.
\<close>

datatype event = ClockRead | Ran stage | CacheSet str

record world =
  clock :: real
  cache :: cache
  logged :: "log_entry list"
  trace :: "event list"

type_synonym 'a action = "world \<Rightarrow> (exn + 'a) \<times> world"

definition now :: "real action" where
  \<comment> \<open>\<open>datetime.now()\<close>\<close>
  "now w = (Inr (clock w), w\<lparr>trace := trace w @ [ClockRead]\<rparr>)"

definition run_stage :: "env \<Rightarrow> stage \<Rightarrow> 'a outcome \<Rightarrow> 'a action" where
  "run_stage env s out w =
     (fst out,
      w\<lparr>clock := clock w + duration env s, logged := logged w @ snd out,
        trace := trace w @ [Ran s]\<rparr>)"

definition then_do :: "'a action \<Rightarrow> ('a \<Rightarrow> 'b action) \<Rightarrow> 'b action" where
  \<comment> \<open>one statement after another inside \<open>try\<close>: an exception skips the rest\<close>
  "then_do m f w = (case m w of (Inl e, w') \<Rightarrow> (Inl e, w') | (Inr x, w') \<Rightarrow> f x w')"

definition cache_key_of :: "text_input \<Rightarrow> str \<Rightarrow> str" where
  \<comment> \<open>\<open>f"nlp_analysis:{input_data.session_id}:{input_data.turn_number}"\<close>\<close>
  "cache_key_of input_data sid =
     lit ''nlp_analysis:'' @ sid @ lit '':'' @
       (case turn_number input_data of None \<Rightarrow> lit ''None'' | Some n \<Rightarrow> str_int n)"

definition cache_result :: "env \<Rightarrow> text_input \<Rightarrow> nlp_analysis_result \<Rightarrow> unit action" where
  \<comment> \<open>\<open>if redis_client and input_data.session_id:\<close> an empty session id is false as well;
      the store is what \<open>setex\<close> leaves, whether it returns or raises\<close>
  "cache_result env input_data result w =
     (case redis_client env of
        None \<Rightarrow> (Inr (), w)
      | Some setex \<Rightarrow>
          (case session_id input_data of
             None \<Rightarrow> (Inr (), w)
           | Some sid \<Rightarrow>
               if sid = [] then (Inr (), w)
               else
                 (let cache_key = cache_key_of input_data sid;
                      w' = w\<lparr>trace := trace w @ [CacheSet cache_key]\<rparr>
                  in case setex cache_key 3600 (json_dumps env result) (cache w) of
                       (Inl e, c) \<Rightarrow> (Inl e, w'\<lparr>cache := c\<rparr>)
                     | (Inr u, c) \<Rightarrow> (Inr (), w'\<lparr>cache := c\<rparr>))))"

definition analyze_body :: "env \<Rightarrow> text_input \<Rightarrow> real \<Rightarrow> nlp_analysis_result action" where
  \<comment> \<open>the statements inside \<open>try\<close>\<close>
  "analyze_body env input_data start_time =
     then_do (run_stage env Entities (extract_entities env input_data)) (\<lambda>entities.
     then_do (run_stage env Topics (extract_topics env input_data)) (\<lambda>topics.
     then_do (run_stage env Sentiment (analyze_sentiment env input_data)) (\<lambda>sentiment.
     then_do (run_stage env Ambiguities (detect_ambiguities env input_data)) (\<lambda>ambiguities.
     then_do (run_stage env Timeline (extract_timeline_events env input_data)) (\<lambda>timeline_events.
     then_do (run_stage env KeyPhrases (extract_key_phrases env input_data)) (\<lambda>key_phrases.
     then_do now (\<lambda>end_time.
     let processing_time = end_time - start_time in
     then_do (run_stage env Readability
                (calculate_readability_score env (input_text input_data), []))
       (\<lambda>readability_score.
     then_do (run_stage env Language (Inr (detect_language (input_text input_data)), []))
       (\<lambda>language.
     let result =
           \<lparr>r_entities = entities, r_topics = topics, r_sentiment = sentiment,
            r_ambiguities = ambiguities, r_timeline_events = timeline_events,
            r_key_phrases = key_phrases, r_language = language,
            r_readability_score = readability_score, r_processing_time = processing_time\<rparr>
     in then_do (cache_result env input_data result) (\<lambda>_. Pair (Inr result)))))))))))"

definition analyze_text :: "env \<Rightarrow> text_input \<Rightarrow> nlp_analysis_result action" where
  "analyze_text env input_data w =
     (case now w of
        (Inl e, w') \<Rightarrow> (Inl e, w')
      | (Inr start_time, w') \<Rightarrow>
          (case analyze_body env input_data start_time w' of
             (Inl e, w'') \<Rightarrow>
               (Inl (HTTPException 500 ''NLP analysis failed''),
                w''\<lparr>logged := logged w'' @ [LogError ''Complete NLP analysis failed'' e]\<rparr>)
           | (Inr result, w'') \<Rightarrow> (Inr result, w'')))"

subsection \<open>Notions the properties are stated with\<close>

definition mentions :: "env \<Rightarrow> text_input \<Rightarrow> str \<Rightarrow> bool" where
  \<comment> \<open>the test of the detector's loops: the term occurs in the lowercased text between
      word boundaries\<close>
  "mentions env input_data term = re_search_word env term (lower env (input_text input_data))"

definition whole_word_in :: "env \<Rightarrow> str \<Rightarrow> str \<Rightarrow> bool" where
  \<comment> \<open>the term occurs in the text with no word character right before it and none right
      after it\<close>
  "whole_word_in env term s \<longleftrightarrow>
     (\<exists>pre post. s = pre @ term @ post \<and>
        \<not> (if pre = [] then False else is_word_char env (last pre)) \<and>
        \<not> head_is_word env post)"

definition first_keyword :: "env \<Rightarrow> str \<Rightarrow> str option" where
  \<comment> \<open>the first temporal keyword, in the order of the list, that the lowercased sentence contains\<close>
  "first_keyword env sentence =
     find (\<lambda>keyword. str_contains keyword (lower env sentence)) temporal_keywords"

definition sentence_events :: "env \<Rightarrow> str \<Rightarrow> timeline_event list" where
  "sentence_events env sentence =
     (case first_keyword env sentence of
        None \<Rightarrow> []
      | Some keyword \<Rightarrow> [keyword_event sentence keyword])"

definition keyword_derived :: "timeline_event \<Rightarrow> bool" where
  \<comment> \<open>an event of the keyword scan: its reference starts with \<open>temporal_keyword_\<close>\<close>
  "keyword_derived ev = starts_with (lit ''temporal_keyword_'') (ev_reference ev)"

definition spec_clamp :: "real \<Rightarrow> real \<Rightarrow> real \<Rightarrow> real" where
  \<comment> \<open>the specification's \<open>clamp(x, lo, hi)\<close>\<close>
  "spec_clamp x lo hi = (if x < lo then lo else if hi < x then hi else x)"

definition spec_readability :: "str list \<Rightarrow> str list \<Rightarrow> real" where
  \<comment> \<open>the specification's formula, from the sentences and the words of a text\<close>
  "spec_readability sentences words =
     (let avg_sentence_length = real (length words) / real (length sentences);
          avg_word_length = real (sum_list (map length words)) / real (length words)
      in spec_clamp (1 - (0.5 * avg_sentence_length + 0.3 * avg_word_length) / 20) 0 1)"

definition stages_before_measurement :: "stage list" where
  "stages_before_measurement = [Entities, Topics, Sentiment, Ambiguities, Timeline, KeyPhrases]"

definition stages_after_measurement :: "stage list" where
  "stages_after_measurement = [Readability, Language]"

definition success_trace :: "event list" where
  \<comment> \<open>what a request whose stages all return adds to the trace, up to the cache\<close>
  "success_trace =
     ClockRead # map Ran stages_before_measurement @ ClockRead # map Ran stages_after_measurement"

definition after_stages :: "env \<Rightarrow> world \<Rightarrow> world" where
  "after_stages env w =
     w\<lparr>clock := clock w
          + sum_list (map (duration env) (stages_before_measurement @ stages_after_measurement)),
       trace := trace w @ success_trace\<rparr>"

definition assembled :: "env \<Rightarrow> text_input \<Rightarrow> nlp_analysis_result \<Rightarrow> bool" where
  \<comment> \<open>every stage returns, and \<open>r\<close> is the result the handler builds from what they return\<close>
  "assembled env input_data r \<longleftrightarrow>
     fst (extract_entities env input_data) = Inr (r_entities r) \<and>
     fst (extract_topics env input_data) = Inr (r_topics r) \<and>
     fst (analyze_sentiment env input_data) = Inr (r_sentiment r) \<and>
     fst (detect_ambiguities env input_data) = Inr (r_ambiguities r) \<and>
     fst (extract_timeline_events env input_data) = Inr (r_timeline_events r) \<and>
     fst (extract_key_phrases env input_data) = Inr (r_key_phrases r) \<and>
     calculate_readability_score env (input_text input_data) = Inr (r_readability_score r) \<and>
     r_language r = detect_language (input_text input_data) \<and>
     r_processing_time r = sum_list (map (duration env) stages_before_measurement)"

definition is_cache_set :: "event \<Rightarrow> bool" where
  "is_cache_set ev = (case ev of CacheSet k \<Rightarrow> True | _ \<Rightarrow> False)"

subsection \<open>Stand-ins for the external capabilities, for concrete runs\<close>

definition latin1_lower :: "str \<Rightarrow> str" where
  \<comment> \<open>\<open>str.lower()\<close> on a string whose code points are below 256: the letters A to Z,
      U+00C0 to U+00D6 and U+00D8 to U+00DE are lowered one by one\<close>
  "latin1_lower s =
     map (\<lambda>c. if (65 \<le> c \<and> c \<le> 90) \<or> (192 \<le> c \<and> c \<le> 214) \<or> (216 \<le> c \<and> c \<le> 222)
              then c + 32 else c) s"

definition latin1_alnum :: "codepoint \<Rightarrow> bool" where
  \<comment> \<open>the alphanumeric characters of U+0080 to U+00FF\<close>
  "latin1_alnum c \<longleftrightarrow>
     c = 170 \<or> c = 178 \<or> c = 179 \<or> c = 181 \<or> c = 185 \<or> c = 186 \<or> (188 \<le> c \<and> c \<le> 190) \<or>
     (192 \<le> c \<and> c \<le> 214) \<or> (216 \<le> c \<and> c \<le> 246) \<or> (248 \<le> c \<and> c \<le> 255)"

definition fake_env :: env where
  \<comment> \<open>a pipeline that finds nothing, a neutral lexicon, a sentence splitter that returns the
      text as one sentence, a working cache, the Unicode tables of the code points below
      256, and stages that take one second each\<close>
  "fake_env =
     \<lparr>nlp = Some (\<lambda>t. Inr \<lparr>ents = [], noun_chunks = []\<rparr>),
      sia = Some (\<lambda>t. Inr \<lparr>sc_compound = 0, sc_pos = 0, sc_neg = 0, sc_neu = 1\<rparr>),
      stop_words = {},
      redis_client = Some (\<lambda>k ttl v c. (Inr (), c(k \<mapsto> (ttl, v)))),
      sent_tokenize = (\<lambda>t. Inr [t]),
      word_tokenize = (\<lambda>t. Inr (split t)),
      list_of_set = remdups,
      json_dumps = (\<lambda>r. lit ''{}''),
      unicode_lower = latin1_lower,
      unicode_alnum = latin1_alnum,
      duration = (\<lambda>s. 1)\<rparr>"

definition boundary_scores :: "real \<Rightarrow> str \<Rightarrow> exn + scores" where
  "boundary_scores c t = Inr \<lparr>sc_compound = c, sc_pos = 0, sc_neg = 0, sc_neu = 1\<rparr>"

definition failing_setex :: "str \<Rightarrow> nat \<Rightarrow> str \<Rightarrow> cache \<Rightarrow> (exn + unit) \<times> cache" where
  \<comment> \<open>a client that lost its connection: the call raises and the store is as it was\<close>
  "failing_setex k ttl v c = (Inl (Error ''ConnectionError''), c)"

definition meeting_text :: str where
  "meeting_text = lit ''We met yesterday and I think we'll meet again next week.''"

definition meeting_doc :: doc where
  \<comment> \<open>the two dates of \<open>meeting_text\<close>, as a named-entity recogniser tags them\<close>
  "meeting_doc =
     \<lparr>ents = [\<lparr>span_text = lit ''yesterday'', span_label = lit ''DATE'', start_char = 7,
               end_char = 16\<rparr>,
              \<lparr>span_text = lit ''next week'', span_label = lit ''DATE'', start_char = 46,
               end_char = 55\<rparr>],
      noun_chunks = [lit ''We'', lit ''I'', lit ''we'']\<rparr>"

definition meeting_env :: env where
  "meeting_env = fake_env\<lparr>nlp := Some (\<lambda>t. Inr meeting_doc)\<rparr>"

definition request :: "str \<Rightarrow> text_input" where
  \<comment> \<open>a request with a text only\<close>
  "request t = \<lparr>input_text = t, session_id = None, turn_number = None\<rparr>"

definition agony_text :: str where
  "agony_text = lit ''The agony was real.''"

definition session_request :: text_input where
  \<comment> \<open>a request of session \<open>s1\<close> that gives no turn number\<close>
  "session_request =
     \<lparr>input_text = agony_text, session_id = Some (lit ''s1''), turn_number = None\<rparr>"

definition mixed_case_text :: str where
  \<comment> \<open>the terms \<open>it\<close> and \<open>soon\<close> in capitals only, and \<open>he\<close>, \<open>her\<close> and \<open>some\<close> only
      inside longer words\<close>
  "mixed_case_text = lit ''It helped the others, IT did. Soon something SOON.''"

definition naehe_text :: str where
  \<comment> \<open>\<open>In der N\<close>, U+00E4, \<open>he\<close>: the letters \<open>he\<close> follow a letter beyond ASCII\<close>
  "naehe_text = lit ''In der N'' @ [228] @ lit ''he''"

definition world0 :: world where
  "world0 = \<lparr>clock = 0, cache = Map.empty, logged = [], trace = []\<rparr>"

definition agony_result :: nlp_analysis_result where
  \<comment> \<open>what \<open>/analyze\<close> builds for \<open>session_request\<close> with the stand-ins\<close>
  "agony_result =
     \<lparr>r_entities = [], r_topics = [],
      r_sentiment = \<lparr>s_compound = 0, s_positive = 0, s_negative = 0, s_neutral = 1,
                      s_label = lit ''neutral''\<rparr>,
      r_ambiguities = [],
      r_timeline_events =
        [\<lparr>ev_event = agony_text, ev_timestamp = None,
          ev_reference = lit ''temporal_keyword_ago'', ev_confidence = 0.6\<rparr>],
      r_key_phrases = [], r_language = lit ''en'', r_readability_score = 21 / 25,
      r_processing_time = 6\<rparr>"

section \<open>Properties\<close>

subsection \<open>Auxiliary facts\<close>

lemmas str_eval =
  lit_def lower_def ascii_lower_def is_word_char_def head_is_word_def match_here_def
  re_search_word_def is_space_def strip_def split_def

lemma starts_with_iff: "starts_with k s \<longleftrightarrow> (\<exists>post. s = k @ post)"
  by (induction k s rule: starts_with.induct) auto

lemma starts_with_append: "starts_with p (p @ s)"
  by (simp add: starts_with_iff)

lemma search_word_iff:
  assumes "term \<noteq> []" and "is_word_char env (hd term)" and "is_word_char env (last term)"
  shows "search_word env term left s \<longleftrightarrow>
     (\<exists>pre post. s = pre @ term @ post \<and>
        \<not> (if pre = [] then left else is_word_char env (last pre)) \<and>
        \<not> head_is_word env post)"
proof (induction s arbitrary: left)
  case Nil
  then show ?case using assms(1) by (cases "term") (simp_all add: match_here_def)
next
  case (Cons c cs)
  have here: "match_here env term left (c # cs) \<longleftrightarrow>
      (\<exists>post. c # cs = term @ post \<and> \<not> left \<and> \<not> head_is_word env post)"
  proof -
    have "head_is_word env (c # cs)" if "c # cs = term @ post" for post
      using that assms(1,2) by (cases "term") (simp_all add: head_is_word_def)
    then show ?thesis
      using assms(1,3) by (auto simp: match_here_def starts_with_iff)
  qed
  have later: "search_word env term (is_word_char env c) cs \<longleftrightarrow>
      (\<exists>pre post. c # cs = (c # pre) @ term @ post \<and>
        \<not> (if c # pre = [] then left else is_word_char env (last (c # pre))) \<and>
        \<not> head_is_word env post)"
    unfolding Cons.IH by auto
  have split: "(\<exists>pre post. c # cs = pre @ term @ post \<and>
        \<not> (if pre = [] then left else is_word_char env (last pre)) \<and> \<not> head_is_word env post) \<longleftrightarrow>
      (\<exists>post. c # cs = term @ post \<and> \<not> left \<and> \<not> head_is_word env post) \<or>
      (\<exists>pre post. c # cs = (c # pre) @ term @ post \<and>
        \<not> (if c # pre = [] then left else is_word_char env (last (c # pre))) \<and>
        \<not> head_is_word env post)"
    (is "?L \<longleftrightarrow> ?A \<or> ?B")
  proof
    assume ?L
    then obtain pre post where p: "c # cs = pre @ term @ post"
      "\<not> (if pre = [] then left else is_word_char env (last pre))" "\<not> head_is_word env post"
      by blast
    show "?A \<or> ?B"
    proof (cases pre)
      case Nil
      with p show ?thesis by auto
    next
      case (Cons x xs)
      with p have "x = c" by simp
      with p Cons show ?thesis by blast
    qed
  next
    assume "?A \<or> ?B"
    then show ?L
    proof
      assume ?A
      then obtain post where "c # cs = [] @ term @ post" "\<not> left" "\<not> head_is_word env post"
        by auto
      then show ?L by (intro exI [of _ "[]"] exI [of _ post]) simp
    next
      assume ?B
      then show ?L by blast
    qed
  qed
  show ?case
    by (simp only: search_word.simps here later split)
qed

lemma re_search_word_iff:
  assumes "term \<noteq> []" and "is_word_char env (hd term)" and "is_word_char env (last term)"
  shows "re_search_word env term s \<longleftrightarrow> whole_word_in env term s"
  unfolding re_search_word_def whole_word_in_def search_word_iff [OF assms] by simp

lemma term_word_ends:
  "\<forall>t \<in> set (ambiguous_pronouns @ vague_quantifiers @ temporal_vague).
     t \<noteq> [] \<and> is_word_char env (hd t) \<and> is_word_char env (last t)"
  by (simp add: ambiguous_pronouns_def vague_quantifiers_def temporal_vague_def lit_def
      is_word_char_def)

lemma strip_blank: "strip [] = []" "strip (lit ''   '') = []" "strip [160, 12288, 8195] = []"
  "strip agony_text = agony_text"
  by (simp_all add: strip_def is_space_def lit_def agony_text_def)

lemma split_agony:
  "split agony_text = [lit ''The'', lit ''agony'', lit ''was'', lit ''real.'']"
  by (simp add: split_def is_space_def lit_def agony_text_def)

lemma mentions_mixed_case:
  "filter (mentions fake_env (request mixed_case_text)) ambiguous_pronouns = [lit ''it'']"
  "filter (mentions fake_env (request mixed_case_text)) vague_quantifiers = []"
  "filter (mentions fake_env (request mixed_case_text)) temporal_vague = [lit ''soon'']"
  by (simp_all add: mentions_def request_def mixed_case_text_def ambiguous_pronouns_def
      vague_quantifiers_def temporal_vague_def str_eval)

lemma mentions_naehe:
  "filter (mentions fake_env (request naehe_text)) ambiguous_pronouns = []"
  "filter (mentions fake_env (request naehe_text)) vague_quantifiers = []"
  "filter (mentions fake_env (request naehe_text)) temporal_vague = []"
  by (simp_all add: mentions_def request_def naehe_text_def ambiguous_pronouns_def
      vague_quantifiers_def temporal_vague_def str_eval fake_env_def latin1_lower_def
      latin1_alnum_def)

lemma first_keyword_meeting: "first_keyword env meeting_text = Some (lit ''yesterday'')"
  by (simp add: first_keyword_def temporal_keywords_def meeting_text_def str_eval)

lemma first_keyword_agony: "first_keyword env agony_text = Some (lit ''ago'')"
  by (simp add: first_keyword_def temporal_keywords_def agony_text_def str_eval)

lemma agony_not_a_word: "\<not> re_search_word env (lit ''ago'') (lower env agony_text)"
  by (simp add: agony_text_def str_eval)

lemma agony_contains: "str_contains (lit ''ago'') (lower env agony_text)"
  by (simp add: agony_text_def str_eval)

lemma strip_meeting: "strip meeting_text = meeting_text"
  by (simp add: strip_def is_space_def meeting_text_def lit_def)

lemma agony_no_ambiguities:
  "filter (\<lambda>t. re_search_word env t (lower env agony_text)) ambiguous_pronouns = []"
  "filter (\<lambda>t. re_search_word env t (lower env agony_text)) vague_quantifiers = []"
  "filter (\<lambda>t. re_search_word env t (lower env agony_text)) temporal_vague = []"
  by (simp_all add: agony_text_def ambiguous_pronouns_def
      vague_quantifiers_def temporal_vague_def str_eval)

lemma lit_append: "lit a @ lit b = lit (a @ b)"
  by (simp add: lit_def)

lemma length_lit: "length (lit s) = length s"
  by (simp add: lit_def)

lemma agony_text_nonempty: "agony_text \<noteq> []"
  by (simp add: agony_text_def lit_def)

lemma sentiment_label_cases:
  "(sentiment_label c = lit ''positive'' \<longleftrightarrow> 0.05 \<le> c) \<and>
   (sentiment_label c = lit ''negative'' \<longleftrightarrow> c \<le> - 0.05) \<and>
   (sentiment_label c = lit ''neutral'' \<longleftrightarrow> - 0.05 < c \<and> c < 0.05)"
  by (auto simp: sentiment_label_def lit_def)

lemma clamp_min_max: "min 1 (max 0 x) = spec_clamp x 0 1"
  by (simp add: spec_clamp_def min_def max_def)

lemma scan_terms_eq:
  "scan_terms env mk txt terms acc =
     acc @ map mk (filter (\<lambda>t. re_search_word env t txt) terms)"
  by (induction terms arbitrary: acc) simp_all

lemma detect_ambiguities_eq:
  "detect_ambiguities env input_data =
     (Inr (map pronoun_result (filter (mentions env input_data) ambiguous_pronouns) @
           map quantifier_result (filter (mentions env input_data) vague_quantifiers) @
           map temporal_result (filter (mentions env input_data) temporal_vague)), [])"
  by (simp add: detect_ambiguities_def scan_terms_eq Let_def mentions_def [abs_def])

lemma terms_distinct: "distinct (ambiguous_pronouns @ vague_quantifiers @ temporal_vague)"
  by (simp add: ambiguous_pronouns_def vague_quantifiers_def temporal_vague_def lit_def)

lemma count_distinct:
  "distinct xs \<Longrightarrow> length (filter (\<lambda>x. x = t) xs) = (if t \<in> set xs then 1 else 0)"
  by (induction xs) auto

lemma filter_a_text:
  "length (filter (\<lambda>r. a_text r = t) rs) = length (filter (\<lambda>x. x = t) (map a_text rs))"
  by (induction rs) auto

lemma a_text_results:
  "a_text \<circ> pronoun_result = id"
  "a_text \<circ> quantifier_result = id"
  "a_text \<circ> temporal_result = id"
  by (simp_all add: pronoun_result_def quantifier_result_def temporal_result_def fun_eq_iff)

lemma scan_keywords_eq:
  "scan_keywords env sentence kws events =
     events @ (case find (\<lambda>keyword. str_contains keyword (lower env sentence)) kws of
                 None \<Rightarrow> [] | Some keyword \<Rightarrow> [keyword_event sentence keyword])"
  by (induction kws) simp_all

lemma scan_sentences_eq:
  "scan_sentences env sentences events = events @ concat (map (sentence_events env) sentences)"
  by (induction sentences arbitrary: events)
    (simp_all add: scan_keywords_eq sentence_events_def first_keyword_def)

lemma extract_timeline_events_eq:
  assumes "nlp env = Some run" and "run (input_text input_data) = Inr d"
    and "sent_tokenize env (input_text input_data) = Inr sentences"
  shows "extract_timeline_events env input_data =
     (Inr (map entity_event (filter time_entity (ents d)) @ concat (map (sentence_events env) sentences)),
      [])"
  using assms by (simp add: extract_timeline_events_def scan_sentences_eq Let_def)

lemma length_sentence_events: "length (sentence_events env s) \<le> 1"
  by (simp add: sentence_events_def split: option.split)


lemma keyword_derived_sentence_events:
  "filter keyword_derived (sentence_events env s) = sentence_events env s"
  by (simp add: sentence_events_def keyword_derived_def keyword_event_def starts_with_append
      split: option.split)

lemma keyword_derived_concat:
  "filter keyword_derived (concat (map (sentence_events env) ss)) =
     concat (map (sentence_events env) ss)"
  by (induction ss) (simp_all add: keyword_derived_sentence_events)

lemma keyword_derived_entity_events:
  "filter keyword_derived (map entity_event (filter time_entity es)) = []"
  by (induction es) (auto simp: keyword_derived_def entity_event_def time_entity_def lit_def)


lemma stage_logs_empty:
  "fst (extract_entities env inp) = Inr x1 \<Longrightarrow> snd (extract_entities env inp) = []"
  "fst (extract_topics env inp) = Inr x2 \<Longrightarrow> snd (extract_topics env inp) = []"
  "fst (analyze_sentiment env inp) = Inr x3 \<Longrightarrow> snd (analyze_sentiment env inp) = []"
  "fst (detect_ambiguities env inp) = Inr x4 \<Longrightarrow> snd (detect_ambiguities env inp) = []"
  "fst (extract_timeline_events env inp) = Inr x5 \<Longrightarrow> snd (extract_timeline_events env inp) = []"
  "fst (extract_key_phrases env inp) = Inr x6 \<Longrightarrow> snd (extract_key_phrases env inp) = []"
  by (auto simp: extract_entities_def extract_topics_def analyze_sentiment_def
      detect_ambiguities_def extract_timeline_events_def extract_key_phrases_def Let_def
      split: option.splits sum.splits)

lemma analyze_text_Inr:
  assumes "fst (analyze_text env inp w) = Inr r"
  shows "assembled env inp r"
  using assms unfolding assembled_def
  by (auto simp: analyze_text_def analyze_body_def then_do_def run_stage_def now_def Let_def
      detect_language_def stages_before_measurement_def
      split: sum.splits prod.splits)

lemma analyze_text_Inl:
  assumes "fst (analyze_text env inp w) = Inl e"
  shows "e = HTTPException 500 ''NLP analysis failed''"
  using assms
  by (auto simp: analyze_text_def now_def split: sum.splits prod.splits)

lemma analyze_text_run:
  assumes "fst (extract_entities env inp) = Inr es"
    and "fst (extract_topics env inp) = Inr ts"
    and "fst (analyze_sentiment env inp) = Inr sn"
    and "fst (detect_ambiguities env inp) = Inr am"
    and "fst (extract_timeline_events env inp) = Inr tes"
    and "fst (extract_key_phrases env inp) = Inr kp"
    and "calculate_readability_score env (input_text inp) = Inr rd"
  shows "analyze_text env inp w =
     (case cache_result env inp
             \<lparr>r_entities = es, r_topics = ts, r_sentiment = sn, r_ambiguities = am,
              r_timeline_events = tes, r_key_phrases = kp, r_language = lit ''en'',
              r_readability_score = rd,
              r_processing_time = sum_list (map (duration env) stages_before_measurement)\<rparr>
             (after_stages env w) of
        (Inl e, w') \<Rightarrow>
          (Inl (HTTPException 500 ''NLP analysis failed''),
           w'\<lparr>logged := logged w' @ [LogError ''Complete NLP analysis failed'' e]\<rparr>)
      | (Inr u, w') \<Rightarrow>
          (Inr \<lparr>r_entities = es, r_topics = ts, r_sentiment = sn, r_ambiguities = am,
              r_timeline_events = tes, r_key_phrases = kp, r_language = lit ''en'',
              r_readability_score = rd,
              r_processing_time = sum_list (map (duration env) stages_before_measurement)\<rparr>, w'))"
proof -
  have logs: "snd (extract_entities env inp) = []" "snd (extract_topics env inp) = []"
    "snd (analyze_sentiment env inp) = []" "snd (detect_ambiguities env inp) = []"
    "snd (extract_timeline_events env inp) = []" "snd (extract_key_phrases env inp) = []"
    using assms stage_logs_empty [of env inp] by simp_all
  show ?thesis
    using assms
    by (simp add: analyze_text_def analyze_body_def then_do_def run_stage_def now_def Let_def
        detect_language_def logs after_stages_def success_trace_def stages_before_measurement_def
        stages_after_measurement_def algebra_simps
        split: sum.splits prod.splits)
qed

lemma analyze_text_assembled:
  assumes "assembled env inp r"
  shows "analyze_text env inp w =
     (case cache_result env inp r (after_stages env w) of
        (Inl e, w') \<Rightarrow>
          (Inl (HTTPException 500 ''NLP analysis failed''),
           w'\<lparr>logged := logged w' @ [LogError ''Complete NLP analysis failed'' e]\<rparr>)
      | (Inr u, w') \<Rightarrow> (Inr r, w'))"
proof -
  have r: "\<lparr>r_entities = r_entities r, r_topics = r_topics r, r_sentiment = r_sentiment r,
            r_ambiguities = r_ambiguities r, r_timeline_events = r_timeline_events r,
            r_key_phrases = r_key_phrases r, r_language = lit ''en'',
            r_readability_score = r_readability_score r,
            r_processing_time = sum_list (map (duration env) stages_before_measurement)\<rparr> = r"
    using assms by (simp add: assembled_def detect_language_def)
  show ?thesis
    using analyze_text_run [of env inp "r_entities r" "r_topics r" "r_sentiment r"
        "r_ambiguities r" "r_timeline_events r" "r_key_phrases r" "r_readability_score r" w] assms
    unfolding r by (simp add: assembled_def)
qed

lemma analyze_text_stage_failure:
  assumes "isl (fst (extract_entities env inp)) \<or> isl (fst (extract_topics env inp)) \<or>
      isl (fst (analyze_sentiment env inp)) \<or> isl (fst (detect_ambiguities env inp)) \<or>
      isl (fst (extract_timeline_events env inp)) \<or> isl (fst (extract_key_phrases env inp)) \<or>
      isl (calculate_readability_score env (input_text inp))"
  shows "cache (snd (analyze_text env inp w)) = cache w \<and>
         filter is_cache_set (trace (snd (analyze_text env inp w))) = filter is_cache_set (trace w)"
  using assms
  by (auto simp: analyze_text_def analyze_body_def then_do_def run_stage_def now_def Let_def
      is_cache_set_def isl_def
      split: sum.splits prod.splits)


lemma agony_assembled:
  assumes "input_text inp = agony_text"
  shows "assembled (fake_env\<lparr>nlp := Some (\<lambda>t. Inr \<lparr>ents = [], noun_chunks = []\<rparr>),
           redis_client := rc\<rparr>) inp agony_result"
  unfolding assembled_def
proof (intro conjI)
  let ?env = "fake_env\<lparr>nlp := Some (\<lambda>t. Inr \<lparr>ents = [], noun_chunks = []\<rparr>), redis_client := rc\<rparr>"
  show "fst (extract_entities ?env inp) = Inr (r_entities agony_result)"
    by (simp add: extract_entities_def fake_env_def agony_result_def)
  show "fst (extract_topics ?env inp) = Inr (r_topics agony_result)"
    by (simp add: extract_topics_def fake_env_def agony_result_def)
  show "fst (analyze_sentiment ?env inp) = Inr (r_sentiment agony_result)"
    by (simp add: analyze_sentiment_def sentiment_label_def fake_env_def agony_result_def)
  show "fst (detect_ambiguities ?env inp) = Inr (r_ambiguities agony_result)"
    using assms
    by (simp add: detect_ambiguities_eq mentions_def [abs_def] agony_no_ambiguities agony_result_def)
  show "fst (extract_timeline_events ?env inp) = Inr (r_timeline_events agony_result)"
    using assms
      extract_timeline_events_eq [of ?env "\<lambda>t. Inr \<lparr>ents = [], noun_chunks = []\<rparr>" inp
        "\<lparr>ents = [], noun_chunks = []\<rparr>" "[agony_text]"]
    by (simp add: fake_env_def sentence_events_def first_keyword_agony keyword_event_def
        strip_blank agony_result_def lit_append)
  show "fst (extract_key_phrases ?env inp) = Inr (r_key_phrases agony_result)"
    by (simp add: extract_key_phrases_def fake_env_def agony_result_def)
  show "calculate_readability_score ?env (input_text inp) = Inr (r_readability_score agony_result)"
    using assms
    by (simp add: calculate_readability_score_def fake_env_def strip_blank split_agony
        agony_result_def length_lit agony_text_nonempty)
  show "r_language agony_result = detect_language (input_text inp)"
    by (simp add: detect_language_def agony_result_def)
  show "r_processing_time agony_result = sum_list (map (duration ?env) stages_before_measurement)"
    by (simp add: stages_before_measurement_def fake_env_def agony_result_def)
qed

lemma fake_env_eq:
  "fake_env = fake_env\<lparr>nlp := Some (\<lambda>t. Inr \<lparr>ents = [], noun_chunks = []\<rparr>),
           redis_client := Some (\<lambda>k ttl v c. (Inr (), c(k \<mapsto> (ttl, v))))\<rparr>"
  by (simp add: fake_env_def)

lemma agony_run:
  "analyze_text fake_env session_request world0 =
     (Inr agony_result,
      \<lparr>clock = 8, cache = [lit ''nlp_analysis:s1:None'' \<mapsto> (3600, lit ''{}'')], logged = [],
       trace = success_trace @ [CacheSet (lit ''nlp_analysis:s1:None'')]\<rparr>)"
proof -
  have "assembled fake_env session_request agony_result"
    using agony_assembled [of session_request "Some (\<lambda>k ttl v c. (Inr (), c(k \<mapsto> (ttl, v))))"]
    by (simp add: fake_env_eq [symmetric] session_request_def)
  then show ?thesis
    by (simp add: analyze_text_assembled cache_result_def cache_key_of_def after_stages_def
        fake_env_def session_request_def world0_def stages_before_measurement_def
        stages_after_measurement_def Let_def lit_def)
qed

lemma agony_run_failing_cache:
  "analyze_text (fake_env\<lparr>redis_client := Some failing_setex\<rparr>) session_request world0 =
     (Inl (HTTPException 500 ''NLP analysis failed''),
      \<lparr>clock = 8, cache = Map.empty,
       logged = [LogError ''Complete NLP analysis failed'' (Error ''ConnectionError'')],
       trace = success_trace @ [CacheSet (lit ''nlp_analysis:s1:None'')]\<rparr>)"
proof -
  have "assembled (fake_env\<lparr>redis_client := Some failing_setex\<rparr>) session_request agony_result"
    using agony_assembled [of session_request "Some failing_setex"]
    by (simp add: fake_env_def session_request_def)
  then show ?thesis
    by (simp add: analyze_text_assembled cache_result_def cache_key_of_def after_stages_def
        fake_env_def session_request_def world0_def stages_before_measurement_def
        stages_after_measurement_def failing_setex_def Let_def lit_def)
qed

lemma cache_result_effect:
  assumes "cache_result env inp r w = (res, w')"
  shows "clock w' = clock w \<and> logged w' = logged w \<and>
         (\<exists>rest. trace w' = trace w @ rest \<and> list_all is_cache_set rest)"
  using assms
  by (auto simp: cache_result_def Let_def is_cache_set_def
      split: option.splits if_splits sum.splits prod.splits)

lemma single_routes_unavailable:
  "nlp env = None \<Longrightarrow>
     fst (extract_entities env inp) = Inl (HTTPException 503 ''SpaCy model not available'') \<and>
     fst (extract_topics env inp) = Inl (HTTPException 503 ''SpaCy model not available'') \<and>
     fst (extract_timeline_events env inp) = Inl (HTTPException 503 ''SpaCy model not available'') \<and>
     fst (extract_key_phrases env inp) = Inl (HTTPException 503 ''SpaCy model not available'')"
  "sia env = None \<Longrightarrow>
     fst (analyze_sentiment env inp) =
       Inl (HTTPException 503 ''NLTK sentiment analyzer not available'')"
  by (simp_all add: extract_entities_def extract_topics_def extract_timeline_events_def
      extract_key_phrases_def analyze_sentiment_def)


lemma world0_fields:
  "clock world0 = 0" "cache world0 = Map.empty" "logged world0 = []" "trace world0 = []"
  by (simp_all add: world0_def)

lemma strip_empty_iff: "strip s = [] \<longleftrightarrow> list_all is_space s"
proof -
  have "dropWhile P xs = [] \<longleftrightarrow> list_all P xs" for P :: "codepoint \<Rightarrow> bool" and xs
    by (induction xs) auto
  moreover have "list_all is_space (dropWhile is_space s) \<longleftrightarrow> list_all is_space s"
    by (induction s) auto
  ultimately show ?thesis
    by (simp add: strip_def list_all_iff)
qed

subsection \<open>The single-facet handlers\<close>

text \<open>
  C7. For every input text the ambiguity detector returns, and what it returns is: one
  result for each pronoun of the list that occurs in the lowercased text as a whole word,
  in the order of the list, then likewise the quantifiers, then the temporal markers. A term
  has exactly one result when it is in a list and occurs, however often, and none otherwise.
  A term of the lists occurs when the lowercased text holds it with no word character right
  before it and none right after it. Every result carries the type and the confidence of
  its family: 0.7 for a pronoun, 0.6 for a quantifier, 0.8 for a temporal marker.
\<close>

theorem ambiguities_once_per_term_in_order:
  "\<exists>rs. detect_ambiguities env input_data = (Inr rs, []) \<and>
     rs = map pronoun_result (filter (mentions env input_data) ambiguous_pronouns) @
          map quantifier_result (filter (mentions env input_data) vague_quantifiers) @
          map temporal_result (filter (mentions env input_data) temporal_vague) \<and>
     (\<forall>t. length (filter (\<lambda>r. a_text r = t) rs) =
        (if t \<in> set (ambiguous_pronouns @ vague_quantifiers @ temporal_vague) \<and>
            mentions env input_data t
         then 1 else 0)) \<and>
     (\<forall>t \<in> set (ambiguous_pronouns @ vague_quantifiers @ temporal_vague).
        mentions env input_data t \<longleftrightarrow>
          whole_word_in env t (lower env (input_text input_data))) \<and>
     (\<forall>r \<in> set rs.
        (a_text r \<in> set ambiguous_pronouns \<and> a_type r = lit ''ambiguous_pronoun'' \<and>
           a_confidence r = 0.7) \<or>
        (a_text r \<in> set vague_quantifiers \<and> a_type r = lit ''vague_quantifier'' \<and>
           a_confidence r = 0.6) \<or>
        (a_text r \<in> set temporal_vague \<and> a_type r = lit ''temporal_ambiguity'' \<and>
           a_confidence r = 0.8))"
proof -
  let ?m = "mentions env input_data"
  let ?all = "ambiguous_pronouns @ vague_quantifiers @ temporal_vague"
  let ?rs = "map pronoun_result (filter ?m ambiguous_pronouns) @
          map quantifier_result (filter ?m vague_quantifiers) @
          map temporal_result (filter ?m temporal_vague)"
  have run: "detect_ambiguities env input_data = (Inr ?rs, [])"
    by (rule detect_ambiguities_eq)
  have texts: "map a_text ?rs = filter ?m ?all"
    by (simp add: a_text_results)
  have dist: "distinct (map a_text ?rs)"
    unfolding texts using terms_distinct by (rule distinct_filter)
  have count: "length (filter (\<lambda>r. a_text r = t) ?rs) =
        (if t \<in> set ?all \<and> ?m t then 1 else 0)" for t
  proof -
    have "length (filter (\<lambda>r. a_text r = t) ?rs) = length (filter (\<lambda>x. x = t) (map a_text ?rs))"
      by (rule filter_a_text)
    also have "\<dots> = (if t \<in> set (map a_text ?rs) then 1 else 0)"
      using dist by (rule count_distinct)
    also have "t \<in> set (map a_text ?rs) \<longleftrightarrow> t \<in> set ?all \<and> ?m t"
      by (simp only: texts set_filter mem_Collect_eq)
    finally show ?thesis .
  qed
  have whole: "?m t \<longleftrightarrow> whole_word_in env t (lower env (input_text input_data))"
    if "t \<in> set ?all" for t
  proof -
    from that term_word_ends [of env]
    have "t \<noteq> []" "is_word_char env (hd t)" "is_word_char env (last t)"
      by blast+
    then show ?thesis
      unfolding mentions_def by (rule re_search_word_iff)
  qed
  have conf: "\<forall>r \<in> set ?rs.
        (a_text r \<in> set ambiguous_pronouns \<and> a_type r = lit ''ambiguous_pronoun'' \<and>
           a_confidence r = 0.7) \<or>
        (a_text r \<in> set vague_quantifiers \<and> a_type r = lit ''vague_quantifier'' \<and>
           a_confidence r = 0.6) \<or>
        (a_text r \<in> set temporal_vague \<and> a_type r = lit ''temporal_ambiguity'' \<and>
           a_confidence r = 0.8)"
    by (auto simp: pronoun_result_def quantifier_result_def temporal_result_def)
  from run count whole conf show ?thesis by blast
qed

theorem ambiguities_once_per_term_in_order_witness:
  "detect_ambiguities fake_env (request mixed_case_text) =
     (Inr [pronoun_result (lit ''it''), temporal_result (lit ''soon'')], []) \<and>
   detect_ambiguities fake_env (request naehe_text) = (Inr [], [])"
  using ambiguities_once_per_term_in_order [of fake_env "request mixed_case_text"]
    ambiguities_once_per_term_in_order [of fake_env "request naehe_text"]
  by (auto simp: mentions_mixed_case mentions_naehe)

text \<open>
  C8. When the lexicon is available and returns the polarity scores of the text, the
  handler returns the compound score unchanged, and the label is \<open>positive\<close> exactly when
  the compound score is at least 0.05, \<open>negative\<close> exactly when it is at most -0.05, and
  \<open>neutral\<close> exactly when it lies strictly between; 0.05 itself is positive and -0.05
  itself negative.
\<close>

theorem sentiment_label_threshold_rule:
  assumes "sia env = Some polarity_scores"
    and "polarity_scores (input_text input_data) = Inr sc"
  shows "\<exists>r. analyze_sentiment env input_data = (Inr r, []) \<and>
           s_compound r = sc_compound sc \<and>
           (s_label r = lit ''positive'' \<longleftrightarrow> 0.05 \<le> sc_compound sc) \<and>
           (s_label r = lit ''negative'' \<longleftrightarrow> sc_compound sc \<le> - 0.05) \<and>
           (s_label r = lit ''neutral'' \<longleftrightarrow> - 0.05 < sc_compound sc \<and> sc_compound sc < 0.05)"
  using assms sentiment_label_cases [of "sc_compound sc"]
  by (simp add: analyze_sentiment_def)

theorem sentiment_label_threshold_rule_witness:
  "(\<exists>r. analyze_sentiment (fake_env\<lparr>sia := Some (boundary_scores 0.05)\<rparr>) (request (lit ''ok'')) =
          (Inr r, [])
        \<and> s_compound r = 0.05 \<and> s_label r = lit ''positive'') \<and>
   (\<exists>r. analyze_sentiment (fake_env\<lparr>sia := Some (boundary_scores (- 0.05))\<rparr>)
          (request (lit ''ok'')) = (Inr r, [])
        \<and> s_compound r = - 0.05 \<and> s_label r = lit ''negative'')"
  using sentiment_label_threshold_rule [of "fake_env\<lparr>sia := Some (boundary_scores 0.05)\<rparr>"
      "boundary_scores 0.05" "request (lit ''ok'')"
      "\<lparr>sc_compound = 0.05, sc_pos = 0, sc_neg = 0, sc_neu = 1\<rparr>"]
    sentiment_label_threshold_rule [of "fake_env\<lparr>sia := Some (boundary_scores (- 0.05))\<rparr>"
      "boundary_scores (- 0.05)" "request (lit ''ok'')"
      "\<lparr>sc_compound = - 0.05, sc_pos = 0, sc_neg = 0, sc_neu = 1\<rparr>"]
  by (auto simp: boundary_scores_def fake_env_def)

text \<open>
  C9. The readability score of a blank text (empty, or white space only, in the sense of
  \<open>str.strip\<close>: any Unicode white space) is 0, with no tokenizer called. For any other
  text whose tokenizers return, it is 0 when there is no sentence or no word, and otherwise
  the specification's formula
  \<open>clamp(1 - (0.5 * avg_sentence_length + 0.3 * avg_word_length) / 20, 0, 1)\<close>. Whenever
  the function returns a score, the score lies between 0 and 1.
\<close>

theorem readability_score_formula:
  "(list_all is_space txt \<longrightarrow> calculate_readability_score env txt = Inr 0) \<and>
   (\<not> list_all is_space txt \<and> sent_tokenize env txt = Inr sentences \<and>
    word_tokenize env txt = Inr words
      \<longrightarrow> calculate_readability_score env txt =
            Inr (if sentences = [] \<or> words = [] then 0 else spec_readability sentences words)) \<and>
   (calculate_readability_score env txt = Inr x \<longrightarrow> 0 \<le> x \<and> x \<le> 1)"
proof (intro conjI impI)
  assume "list_all is_space txt"
  then show "calculate_readability_score env txt = Inr 0"
    by (simp add: calculate_readability_score_def strip_empty_iff)
next
  assume "\<not> list_all is_space txt \<and> sent_tokenize env txt = Inr sentences \<and>
    word_tokenize env txt = Inr words"
  then show "calculate_readability_score env txt =
            Inr (if sentences = [] \<or> words = [] then 0 else spec_readability sentences words)"
    by (simp add: calculate_readability_score_def spec_readability_def clamp_min_max Let_def
        strip_empty_iff algebra_simps)
next
  assume "calculate_readability_score env txt = Inr x"
  then show "0 \<le> x"
    by (auto simp: calculate_readability_score_def Let_def split: if_splits sum.splits)
next
  assume "calculate_readability_score env txt = Inr x"
  then show "x \<le> 1"
    by (auto simp: calculate_readability_score_def Let_def split: if_splits sum.splits)
qed

theorem readability_score_formula_witness:
  "calculate_readability_score fake_env [] = Inr 0 \<and>
   calculate_readability_score fake_env (lit ''   '') = Inr 0 \<and>
   calculate_readability_score (fake_env\<lparr>sent_tokenize := \<lambda>t. Inl (Error ''LookupError'')\<rparr>)
     [160, 12288, 8195] = Inr 0 \<and>
   calculate_readability_score fake_env agony_text = Inr (21 / 25) \<and>
   spec_readability [agony_text] [lit ''The'', lit ''agony'', lit ''was'', lit ''real.''] = 21 / 25 \<and>
   (0::real) \<le> 21 / 25 \<and> (21 / 25 :: real) \<le> 1"
proof -
  have blank: "list_all is_space []" "list_all is_space (lit ''   '')"
    "list_all is_space [160, 12288, 8195]" "\<not> list_all is_space agony_text"
    by (simp_all add: is_space_def lit_def agony_text_def)
  have tok: "sent_tokenize fake_env agony_text = Inr [agony_text]"
    "word_tokenize fake_env agony_text = Inr [lit ''The'', lit ''agony'', lit ''was'', lit ''real.'']"
    by (simp_all add: fake_env_def split_agony)
  have val: "spec_readability [agony_text] [lit ''The'', lit ''agony'', lit ''was'', lit ''real.'']
      = 21 / 25"
    by (simp add: spec_readability_def spec_clamp_def length_lit)
  show ?thesis
    using readability_score_formula [of "[]" fake_env "[]" "[]" 0]
      readability_score_formula [of "lit ''   ''" fake_env "[]" "[]" 0]
      readability_score_formula [of "[160, 12288, 8195]"
        "fake_env\<lparr>sent_tokenize := \<lambda>t. Inl (Error ''LookupError'')\<rparr>" "[]" "[]" 0]
      readability_score_formula [of agony_text fake_env "[agony_text]"
        "[lit ''The'', lit ''agony'', lit ''was'', lit ''real.'']" "21 / 25"]
    by (simp add: blank tok val is_space_def)
qed

text \<open>
  C6. The claim is that \<open>meeting_text\<close> yields two keyword-derived events, one for
  \<open>yesterday\<close> and one for \<open>next week\<close>. The text has a single sentence terminator, at its
  end, so the sentence splitter returns it as one sentence; the scan of a sentence stops at
  the first keyword of the list that the sentence contains, which is \<open>yesterday\<close>. With the
  two dates found by the named-entity recogniser, the handler returns three events, of which
  one is keyword-derived.
\<close>

theorem meeting_text_two_events_counterexample:
  "fst (extract_timeline_events meeting_env (request meeting_text)) =
     Inr [\<lparr>ev_event = lit ''yesterday'', ev_timestamp = None, ev_reference = lit ''DATE'',
           ev_confidence = 0.7\<rparr>,
          \<lparr>ev_event = lit ''next week'', ev_timestamp = None, ev_reference = lit ''DATE'',
           ev_confidence = 0.7\<rparr>,
          \<lparr>ev_event = meeting_text, ev_timestamp = None,
           ev_reference = lit ''temporal_keyword_yesterday'', ev_confidence = 0.6\<rparr>] \<and>
   length (filter keyword_derived
     [\<lparr>ev_event = lit ''yesterday'', ev_timestamp = None, ev_reference = lit ''DATE'',
           ev_confidence = 0.7\<rparr>,
          \<lparr>ev_event = lit ''next week'', ev_timestamp = None, ev_reference = lit ''DATE'',
           ev_confidence = 0.7\<rparr>,
          \<lparr>ev_event = meeting_text, ev_timestamp = None,
           ev_reference = lit ''temporal_keyword_yesterday'', ev_confidence = 0.6\<rparr>]) = 1"
proof -
  have "extract_timeline_events meeting_env (request meeting_text) =
     (Inr (map entity_event (filter time_entity (ents meeting_doc)) @
        concat (map (sentence_events meeting_env) [meeting_text])), [])"
    by (rule extract_timeline_events_eq [where run = "\<lambda>t. Inr meeting_doc"])
      (simp_all add: meeting_env_def fake_env_def request_def)
  then show ?thesis
    by (simp add: meeting_doc_def time_entity_def entity_event_def sentence_events_def
        first_keyword_meeting keyword_event_def strip_meeting keyword_derived_def lit_append)
      (simp add: lit_def)
qed

text \<open>
  C6, as amended. For \<open>meeting_text\<close>, whatever the named-entity recogniser finds and
  however the text is split into sentences, the keyword-derived events are those of the
  sentences, in order: for each sentence at most one, for the first keyword of the list the
  sentence contains. When the text is split as the single sentence it is, there is exactly
  one keyword-derived event, with reference \<open>temporal_keyword_yesterday\<close>.
\<close>

theorem one_keyword_event_per_sentence:
  assumes "nlp env = Some run" and "input_text input_data = meeting_text"
    and "run meeting_text = Inr d"
    and "sent_tokenize env meeting_text = Inr sentences"
  shows "\<exists>events. fst (extract_timeline_events env input_data) = Inr events \<and>
           filter keyword_derived events = concat (map (sentence_events env) sentences) \<and>
           (\<forall>s. length (sentence_events env s) \<le> 1) \<and>
           (sentences = [meeting_text] \<longrightarrow>
              filter keyword_derived events =
                [\<lparr>ev_event = meeting_text, ev_timestamp = None,
                  ev_reference = lit ''temporal_keyword_yesterday'', ev_confidence = 0.6\<rparr>])"
proof -
  have run: "extract_timeline_events env input_data =
     (Inr (map entity_event (filter time_entity (ents d)) @ concat (map (sentence_events env) sentences)), [])"
    using assms by (intro extract_timeline_events_eq [where run = run]) simp_all
  have one: "sentence_events env meeting_text =
      [\<lparr>ev_event = meeting_text, ev_timestamp = None,
        ev_reference = lit ''temporal_keyword_yesterday'', ev_confidence = 0.6\<rparr>]"
    by (simp add: sentence_events_def first_keyword_meeting keyword_event_def strip_meeting
        lit_append)
  let ?events = "map entity_event (filter time_entity (ents d)) @
      concat (map (sentence_events env) sentences)"
  have kw: "filter keyword_derived ?events = concat (map (sentence_events env) sentences)"
    by (simp only: filter_append keyword_derived_entity_events keyword_derived_concat append_Nil)
  show ?thesis
  proof (intro exI [of _ ?events] conjI allI impI)
    show "fst (extract_timeline_events env input_data) = Inr ?events"
      by (simp only: run fst_conv)
    show "filter keyword_derived ?events = concat (map (sentence_events env) sentences)"
      by (rule kw)
    show "length (sentence_events env s) \<le> 1" for s
      by (rule length_sentence_events)
    assume single: "sentences = [meeting_text]"
    have "filter keyword_derived ?events = concat (map (sentence_events env) sentences)"
      by (rule kw)
    also have "\<dots> = sentence_events env meeting_text"
      using single by simp
    also have "\<dots> = [\<lparr>ev_event = meeting_text, ev_timestamp = None,
          ev_reference = lit ''temporal_keyword_yesterday'', ev_confidence = 0.6\<rparr>]"
      by (rule one)
    finally show "filter keyword_derived ?events =
        [\<lparr>ev_event = meeting_text, ev_timestamp = None,
          ev_reference = lit ''temporal_keyword_yesterday'', ev_confidence = 0.6\<rparr>]" .
  qed
qed

theorem one_keyword_event_per_sentence_witness:
  "\<exists>events. fst (extract_timeline_events meeting_env (request meeting_text)) = Inr events \<and>
     filter keyword_derived events =
                [\<lparr>ev_event = meeting_text, ev_timestamp = None,
                  ev_reference = lit ''temporal_keyword_yesterday'', ev_confidence = 0.6\<rparr>]"
  using one_keyword_event_per_sentence [of meeting_env "\<lambda>t. Inr meeting_doc" "request meeting_text"
      meeting_doc "[meeting_text]"]
  by (auto simp: meeting_env_def fake_env_def request_def)

text \<open>
  C10. The keyword scan tests \<open>keyword in sentence_lower\<close>: a sentence whose lowercased
  text contains a keyword as a substring, whole word or not, gets the event of the first
  keyword it contains. The witness is a sentence with \<open>ago\<close> inside \<open>agony\<close>, where the
  word-boundary search of the ambiguity detector finds no \<open>ago\<close>.
\<close>

theorem keyword_scan_matches_substrings:
  assumes "nlp env = Some run" and "run (input_text input_data) = Inr d"
    and "sent_tokenize env (input_text input_data) = Inr sentences"
    and "sentence \<in> set sentences"
    and "keyword \<in> set temporal_keywords"
    and "str_contains keyword (lower env sentence)"
  shows "\<exists>events k. fst (extract_timeline_events env input_data) = Inr events \<and>
           first_keyword env sentence = Some k \<and>
           keyword_event sentence k \<in> set events \<and>
           ev_reference (keyword_event sentence k) = lit ''temporal_keyword_'' @ k"
proof -
  have "first_keyword env sentence \<noteq> None"
    using assms(5,6) by (auto simp: first_keyword_def find_None_iff)
  then obtain k where k: "first_keyword env sentence = Some k" by blast
  then have "keyword_event sentence k \<in> set (sentence_events env sentence)"
    by (simp add: sentence_events_def)
  with assms(4) have "keyword_event sentence k \<in> set (concat (map (sentence_events env) sentences))"
    by auto
  with k show ?thesis
    using extract_timeline_events_eq [OF assms(1-3)] by (simp add: keyword_event_def)
qed

theorem keyword_scan_matches_substrings_witness:
  "fst (extract_timeline_events fake_env (request agony_text)) =
     Inr [\<lparr>ev_event = agony_text, ev_timestamp = None,
           ev_reference = lit ''temporal_keyword_ago'', ev_confidence = 0.6\<rparr>] \<and>
   str_contains (lit ''ago'') (lower fake_env agony_text) \<and>
   \<not> re_search_word fake_env (lit ''ago'') (lower fake_env agony_text)"
proof -
  have "fst (extract_timeline_events fake_env (request agony_text)) =
     Inr [keyword_event agony_text (lit ''ago'')]"
    using keyword_scan_matches_substrings [of fake_env "\<lambda>t. Inr \<lparr>ents = [], noun_chunks = []\<rparr>"
      "request agony_text" "\<lparr>ents = [], noun_chunks = []\<rparr>" "[agony_text]"
      agony_text "lit ''ago''"]
      extract_timeline_events_eq [of fake_env "\<lambda>t. Inr \<lparr>ents = [], noun_chunks = []\<rparr>"
      "request agony_text" "\<lparr>ents = [], noun_chunks = []\<rparr>" "[agony_text]"]
    by (simp add: fake_env_def request_def temporal_keywords_def agony_contains
        sentence_events_def first_keyword_agony)
  then show ?thesis
    using agony_contains [of fake_env] agony_not_a_word [of fake_env]
    by (simp add: keyword_event_def strip_blank lit_append)
qed

subsection \<open>The aggregate handler\<close>

text \<open>
  C1. A failing cache write is not swallowed. The call of \<open>setex\<close> stands inside the
  handler's \<open>try\<close> and has no handler of its own: when every stage returns, a session id
  is present and not empty, the cache client exists and its \<open>setex\<close> raises, the
  handler's one \<open>except\<close> clause catches the exception, logs it, and the request fails with
  the generic \<open>500 NLP analysis failed\<close>; no result is returned. The witness is the
  request that returns \<open>agony_result\<close> with a working cache and fails with a cache whose
  write raises.
\<close>

theorem cache_write_failure_fails_request:
  assumes "assembled env input_data r"
    and "redis_client env = Some setex"
    and "session_id input_data = Some sid" and "sid \<noteq> []"
    and "fst (setex (cache_key_of input_data sid) 3600 (json_dumps env r) (cache w)) = Inl e"
  shows "fst (analyze_text env input_data w) = Inl (HTTPException 500 ''NLP analysis failed'') \<and>
         logged (snd (analyze_text env input_data w)) =
           logged w @ [LogError ''Complete NLP analysis failed'' e]"
proof -
  obtain res c where
    call: "setex (cache_key_of input_data sid) 3600 (json_dumps env r) (cache w) = (res, c)"
    by (cases "setex (cache_key_of input_data sid) 3600 (json_dumps env r) (cache w)")
  with assms(5) have res: "res = Inl e"
    by simp
  show ?thesis
    using assms(2-4) call res
    by (simp add: analyze_text_assembled [OF assms(1)] cache_result_def Let_def after_stages_def)
qed

theorem cache_write_failure_fails_request_witness:
  "fst (analyze_text fake_env session_request world0) = Inr agony_result \<and>
   fst (analyze_text (fake_env\<lparr>redis_client := Some failing_setex\<rparr>) session_request world0) =
     Inl (HTTPException 500 ''NLP analysis failed'') \<and>
   logged (snd (analyze_text (fake_env\<lparr>redis_client := Some failing_setex\<rparr>) session_request world0)) =
     [LogError ''Complete NLP analysis failed'' (Error ''ConnectionError'')]"
proof -
  have a: "assembled (fake_env\<lparr>redis_client := Some failing_setex\<rparr>) session_request agony_result"
    using agony_assembled [of session_request "Some failing_setex"]
    by (simp add: fake_env_def session_request_def)
  have client: "redis_client (fake_env\<lparr>redis_client := Some failing_setex\<rparr>) = Some failing_setex"
    by simp
  have sid: "session_id session_request = Some (lit ''s1'')" "lit ''s1'' \<noteq> []"
    by (simp_all add: session_request_def lit_def)
  have raises: "fst (failing_setex (cache_key_of session_request (lit ''s1'')) 3600
      (json_dumps (fake_env\<lparr>redis_client := Some failing_setex\<rparr>) agony_result) (cache world0)) =
      Inl (Error ''ConnectionError'')"
    by (simp add: failing_setex_def)
  from cache_write_failure_fails_request [OF a client sid raises] show ?thesis
    by (simp add: agony_run world0_fields)
qed

text \<open>
  C2. The claim is that a request without a turn number is cached under the key ending in
  \<open>:1\<close>. The f-string formats the absent turn number as \<open>None\<close>: session \<open>s1\<close> is stored
  under \<open>nlp_analysis:s1:None\<close>, and nothing is stored under \<open>nlp_analysis:s1:1\<close>.
\<close>

theorem cache_key_turn_one_counterexample:
  "fst (analyze_text fake_env session_request world0) = Inr agony_result \<and>
   cache (snd (analyze_text fake_env session_request world0)) (lit ''nlp_analysis:s1:1'') = None \<and>
   cache (snd (analyze_text fake_env session_request world0)) (lit ''nlp_analysis:s1:None'') =
     Some (3600, lit ''{}'')"
  by (simp add: agony_run) (simp add: lit_def)

text \<open>
  C2, as amended. For every request that succeeds, with a session id present and not
  empty, a cache client and no turn number, \<open>setex\<close> is called once, after all stages, with
  the key \<open>nlp_analysis:<session_id>:None\<close>, the expiry 3600 and the serialized result; it
  returns, and the store it leaves is the cache the request leaves.
\<close>

theorem cache_key_without_turn_number:
  assumes "fst (analyze_text env input_data w) = Inr r"
    and "redis_client env = Some setex"
    and "session_id input_data = Some sid" and "sid \<noteq> []"
    and "turn_number input_data = None"
  shows "setex (lit ''nlp_analysis:'' @ sid @ lit '':None'') 3600 (json_dumps env r) (cache w) =
           (Inr (), cache (snd (analyze_text env input_data w))) \<and>
         trace (snd (analyze_text env input_data w)) =
           trace w @ success_trace @ [CacheSet (lit ''nlp_analysis:'' @ sid @ lit '':None'')]"
proof -
  have a: "assembled env input_data r"
    using assms(1) by (rule analyze_text_Inr)
  have key: "cache_key_of input_data sid = lit ''nlp_analysis:'' @ sid @ lit '':None''"
    using assms(5) by (simp add: cache_key_of_def lit_def)
  show ?thesis
    using assms(1-4) unfolding key [symmetric]
    by (auto simp: analyze_text_assembled [OF a] cache_result_def Let_def after_stages_def
        split: sum.splits prod.splits)
qed

theorem cache_key_without_turn_number_witness:
  "cache (snd (analyze_text fake_env session_request world0)) =
     [lit ''nlp_analysis:s1:None'' \<mapsto> (3600, lit ''{}'')] \<and>
   trace (snd (analyze_text fake_env session_request world0)) =
     success_trace @ [CacheSet (lit ''nlp_analysis:s1:None'')]"
proof -
  have ok: "fst (analyze_text fake_env session_request world0) = Inr agony_result"
    by (simp add: agony_run)
  have client: "redis_client fake_env = Some (\<lambda>k ttl v c. (Inr (), c(k \<mapsto> (ttl, v))))"
    by (simp add: fake_env_def)
  have sid: "session_id session_request = Some (lit ''s1'')" "lit ''s1'' \<noteq> []"
    "turn_number session_request = None"
    by (simp_all add: session_request_def lit_def)
  have json: "json_dumps fake_env agony_result = lit ''{}''"
    by (simp add: fake_env_def)
  have key: "lit ''nlp_analysis:'' @ lit ''s1'' @ lit '':None'' = lit ''nlp_analysis:s1:None''"
    by (simp add: lit_def)
  from cache_key_without_turn_number [OF ok client sid] show ?thesis
    unfolding key json world0_fields by simp
qed

text \<open>
  C3. With the spaCy pipeline or the sentiment lexicon missing, a stage of \<open>/analyze\<close>
  raises the 503 of its single-facet route, and the handler's \<open>except Exception\<close> catches
  it: the caller gets the generic \<open>500 NLP analysis failed\<close>, and the 503 is only logged
  (shown for the pipeline, whose stage runs first). The single-facet routes themselves
  answer 503 (\<open>single_routes_unavailable\<close>).
\<close>

theorem analyze_masks_unavailable_capability:
  assumes "nlp env = None \<or> sia env = None"
  shows "fst (analyze_text env input_data w) = Inl (HTTPException 500 ''NLP analysis failed'') \<and>
         (nlp env = None \<longrightarrow>
            logged (snd (analyze_text env input_data w)) =
              logged w @ [LogError ''Complete NLP analysis failed''
                            (HTTPException 503 ''SpaCy model not available'')])"
proof (intro conjI impI)
  show "fst (analyze_text env input_data w) = Inl (HTTPException 500 ''NLP analysis failed'')"
  proof (cases "fst (analyze_text env input_data w)")
    case (Inl e)
    then show ?thesis using analyze_text_Inl [OF Inl] by simp
  next
    case (Inr r)
    then have "assembled env input_data r" by (rule analyze_text_Inr)
    with assms single_routes_unavailable [of env input_data] show ?thesis
      by (auto simp: assembled_def)
  qed
next
  assume "nlp env = None"
  then show "logged (snd (analyze_text env input_data w)) =
      logged w @ [LogError ''Complete NLP analysis failed''
                    (HTTPException 503 ''SpaCy model not available'')]"
    by (simp add: analyze_text_def analyze_body_def then_do_def run_stage_def now_def
        extract_entities_def)
qed

theorem analyze_masks_unavailable_capability_witness:
  "fst (extract_entities (fake_env\<lparr>nlp := None\<rparr>) session_request) =
     Inl (HTTPException 503 ''SpaCy model not available'') \<and>
   fst (analyze_text (fake_env\<lparr>nlp := None\<rparr>) session_request world0) =
     Inl (HTTPException 500 ''NLP analysis failed'') \<and>
   logged (snd (analyze_text (fake_env\<lparr>nlp := None\<rparr>) session_request world0)) =
     [LogError ''Complete NLP analysis failed'' (HTTPException 503 ''SpaCy model not available'')]"
  using analyze_masks_unavailable_capability [of "fake_env\<lparr>nlp := None\<rparr>" session_request world0]
  by (simp add: fake_env_def extract_entities_def world0_def)

text \<open>
  C4. The claim is that the measured interval spans all eight stages. The second clock
  reading is taken after the key phrases: readability and language run after it. With
  every stage taking one second, the reported time is 6 while 8 seconds pass.
\<close>

theorem processing_time_whole_sequence_counterexample:
  "fst (analyze_text fake_env session_request world0) = Inr agony_result \<and>
   r_processing_time agony_result = 6 \<and>
   clock (snd (analyze_text fake_env session_request world0)) = 8 \<and>
   trace (snd (analyze_text fake_env session_request world0)) =
     [ClockRead, Ran Entities, Ran Topics, Ran Sentiment, Ran Ambiguities, Ran Timeline,
      Ran KeyPhrases, ClockRead, Ran Readability, Ran Language,
      CacheSet (lit ''nlp_analysis:s1:None'')]"
  by (simp add: agony_run agony_result_def success_trace_def stages_before_measurement_def
      stages_after_measurement_def)

text \<open>
  C4, as amended. For every request that succeeds, the reported processing time is the
  time of the six stages from entities to key phrases, which run between the two clock
  readings in that order; the readability score and the language detection run after the
  second reading, so the clock has then advanced by the time of all eight stages.
\<close>

theorem processing_time_spans_six_stages:
  assumes "fst (analyze_text env input_data w) = Inr r"
  shows "r_processing_time r = sum_list (map (duration env) stages_before_measurement) \<and>
         clock (snd (analyze_text env input_data w)) =
           clock w + sum_list (map (duration env)
                                 (stages_before_measurement @ stages_after_measurement)) \<and>
         (\<exists>rest. trace (snd (analyze_text env input_data w)) =
                    trace w @ ClockRead # map Ran stages_before_measurement @
                      ClockRead # map Ran stages_after_measurement @ rest \<and>
                  list_all is_cache_set rest)"
proof -
  have a: "assembled env input_data r"
    using assms by (rule analyze_text_Inr)
  obtain res w' where c: "cache_result env input_data r (after_stages env w) = (res, w')"
    by (cases "cache_result env input_data r (after_stages env w)")
  from cache_result_effect [OF c] obtain rest where
    w': "clock w' = clock (after_stages env w)"
    and tr: "trace w' = trace (after_stages env w) @ rest" and rest: "list_all is_cache_set rest"
    by blast
  have run: "analyze_text env input_data w = (Inr r, w')"
    using assms by (auto simp: analyze_text_assembled [OF a] c split: sum.splits)
  have "r_processing_time r = sum_list (map (duration env) stages_before_measurement)"
    using a by (simp add: assembled_def)
  moreover have "clock (snd (analyze_text env input_data w)) =
           clock w + sum_list (map (duration env)
                                 (stages_before_measurement @ stages_after_measurement))"
    by (simp add: run w' after_stages_def)
  moreover have "trace (snd (analyze_text env input_data w)) =
                    trace w @ ClockRead # map Ran stages_before_measurement @
                      ClockRead # map Ran stages_after_measurement @ rest"
    by (simp add: run tr after_stages_def success_trace_def)
  ultimately show ?thesis
    using rest by blast
qed

theorem processing_time_spans_six_stages_witness:
  "r_processing_time agony_result = 6 \<and>
   clock (snd (analyze_text fake_env session_request world0)) = 8"
  using processing_time_spans_six_stages [of fake_env session_request world0 agony_result]
  by (simp add: agony_run agony_result_def)

text \<open>
  C5. When any stage raises (one of the six handlers, or the readability helper through
  its tokenizers), \<open>/analyze\<close> returns the one generic failure
  \<open>500 NLP analysis failed\<close> and no result, \<open>setex\<close> is not called, and the cache is as
  it was before the request.
\<close>

theorem stage_failure_aborts_aggregate:
  assumes "isl (fst (extract_entities env input_data)) \<or>
      isl (fst (extract_topics env input_data)) \<or>
      isl (fst (analyze_sentiment env input_data)) \<or>
      isl (fst (detect_ambiguities env input_data)) \<or>
      isl (fst (extract_timeline_events env input_data)) \<or>
      isl (fst (extract_key_phrases env input_data)) \<or>
      isl (calculate_readability_score env (input_text input_data))"
  shows "fst (analyze_text env input_data w) = Inl (HTTPException 500 ''NLP analysis failed'') \<and>
         cache (snd (analyze_text env input_data w)) = cache w \<and>
         filter is_cache_set (trace (snd (analyze_text env input_data w))) =
           filter is_cache_set (trace w)"
proof -
  have "fst (analyze_text env input_data w) = Inl (HTTPException 500 ''NLP analysis failed'')"
  proof (cases "fst (analyze_text env input_data w)")
    case (Inl e)
    then show ?thesis using analyze_text_Inl [OF Inl] by simp
  next
    case (Inr r)
    then have "assembled env input_data r" by (rule analyze_text_Inr)
    with assms show ?thesis by (auto simp: assembled_def)
  qed
  with analyze_text_stage_failure [OF assms, of w] show ?thesis by simp
qed

theorem stage_failure_aborts_aggregate_witness:
  "fst (extract_entities (fake_env\<lparr>nlp := Some (\<lambda>t. Inl (Error ''out of memory''))\<rparr>) session_request) =
     Inl (HTTPException 500 ''Entity extraction failed'') \<and>
   fst (analyze_text (fake_env\<lparr>nlp := Some (\<lambda>t. Inl (Error ''out of memory''))\<rparr>) session_request world0) =
     Inl (HTTPException 500 ''NLP analysis failed'') \<and>
   cache (snd (analyze_text (fake_env\<lparr>nlp := Some (\<lambda>t. Inl (Error ''out of memory''))\<rparr>)
     session_request world0)) = Map.empty"
  using stage_failure_aborts_aggregate [of "fake_env\<lparr>nlp := Some (\<lambda>t. Inl (Error ''out of memory''))\<rparr>"
      session_request world0]
  by (simp add: fake_env_def extract_entities_def world0_def)

end
